theory Spec2Isabelle
  imports Main "HOL-Library.AList"
begin

section \<open>Values and platform types\<close>

text \<open>
  JSON-like JavaScript values: request objects handed to the services and the object
  literals they serialise. Only integral numbers are represented. A property that is
  missing from an object reads as \<open>JUndefined\<close>, as in JavaScript.
\<close>

datatype js =
    JUndefined
  | JNull
  | JBool bool
  | JNum int
  | JStr string
  | JArr "js list"
  | JObj "(string \<times> js) list"

type_synonym obj = "(string \<times> js) list"

definition field :: "obj \<Rightarrow> string \<Rightarrow> js" where
  "field request k = (case map_of request k of None \<Rightarrow> JUndefined | Some v \<Rightarrow> v)"

text \<open>
  A value that is thrown or with which a promise rejects: \<open>new Error(message)\<close> raised
  by the services themselves, and the platform's own exceptions (\<open>fetch\<close> rejects with
  a \<open>TypeError\<close> on a transport failure, \<open>response.json()\<close> with a
  \<open>SyntaxError\<close> on a body that is not JSON).
\<close>

datatype Thrown = Error string | TypeError string | SyntaxError string

type_synonym Headers = "(string \<times> string) list"

text \<open>
  \<open>RequestInit\<close>: the fields the services set. A header record is an object with
  string properties: keys in insertion order, one value each.
\<close>

record RequestInit =
  "method" :: "string option"
  body :: "string option"
  headers :: Headers
  credentials :: "string option"

text \<open>
  The \<open>Response\<close> that \<open>fetch\<close> resolves with, for a body typed \<open>'a\<close> as in
  \<open>makeRequest<T>\<close>: \<open>response.text()\<close> is \<open>text_body\<close>, \<open>response.json()\<close> is
  \<open>json_body\<close> (\<open>Inl\<close> when it rejects). The parsed body is trusted to have the
  type the call site declares; nothing checks it at run time. Reading the text of a
  response that has arrived is taken to succeed.
\<close>

record 'a Response =
  ok :: bool
  status :: nat
  text_body :: string
  json_body :: "Thrown + 'a"

datatype 'a FetchResult = Rejected Thrown | Resolved "'a Response"

text \<open>
  The network is a parameter of every operation: \<open>fetch url fetchOptions\<close> is what the
  call settles with.
\<close>

type_synonym 'a Fetch = "string \<Rightarrow> RequestInit \<Rightarrow> 'a FetchResult"

text \<open>Object spread \<open>{...base, ...ext}\<close> on header records: a later key overrides in place.\<close>

definition spread :: "Headers \<Rightarrow> Headers \<Rightarrow> Headers" where
  "spread base ext = fold (\<lambda>(k, v). AList.update k v) ext base"

text \<open>The decimal text a template literal gives a non-negative integer.\<close>

definition digit :: "nat \<Rightarrow> char" where
  "digit d = ''0123456789'' ! d"

fun toString :: "nat \<Rightarrow> string" where
  "toString n = (if n < 10 then [digit n] else toString (n div 10) @ [digit (n mod 10)])"

declare toString.simps [simp del]

section \<open>The token manager\<close>

text \<open>
  Modelled from the spec: the class \<open>TokenManager\<close> (\<open>@/services/TokenManager\<close>) is not
  among the sources. The spec gives its contract: one process-wide instance holding the
  current credential, an opaque string or absent, read by \<open>getToken\<close>, replaced by
  \<open>setToken\<close> and removed by \<open>clearToken\<close>.
\<close>

record TokenManager =
  stored :: "string option"

definition getToken :: "TokenManager \<Rightarrow> string option" where
  "getToken tm = stored tm"

definition setToken :: "string \<Rightarrow> TokenManager \<Rightarrow> TokenManager" where
  "setToken t tm = tm\<lparr>stored := Some t\<rparr>"

definition clearToken :: "TokenManager \<Rightarrow> TokenManager" where
  "clearToken tm = tm\<lparr>stored := None\<rparr>"

text \<open>
  What the services share and change: the single token manager
  (\<open>TokenManager.getInstance()\<close>) and the calls made to \<open>fetch\<close>, oldest first.
  Console output of the auth service is not modelled.
\<close>

record World =
  tokenManager :: TokenManager
  fetched :: "(string \<times> RequestInit) list"

section \<open>ApiAuthService\<close>

record ApiAuthService =
  baseUrl :: string

text \<open>The envelope of the auth endpoints, \<open>{ user: User; token: string }\<close>.\<close>

record 'u AuthResponse =
  user :: 'u
  token :: string

definition AuthService_makeRequest ::
  "ApiAuthService \<Rightarrow> 'a Fetch \<Rightarrow> string \<Rightarrow> RequestInit \<Rightarrow> World \<Rightarrow> (Thrown + 'a) \<times> World" where
  "AuthService_makeRequest svc fetch endpoint options w =
     (let url = baseUrl svc @ endpoint;
          hdrs = spread [(''Content-Type'', ''application/json'')] (headers options);
          fetchOptions = options\<lparr>headers := hdrs, credentials := Some ''include''\<rparr>;
          w' = w\<lparr>fetched := fetched w @ [(url, fetchOptions)]\<rparr>
      in case fetch url fetchOptions of
           Rejected e \<Rightarrow> (Inl e, w')
         | Resolved response \<Rightarrow>
             if \<not> ok response then
               (Inl (Error (''Request failed with status '' @ toString (status response)
                              @ '': '' @ text_body response)), w')
             else (case json_body response of
                     Inl e \<Rightarrow> (Inl e, w')
                   | Inr data \<Rightarrow> (Inr data, w')))"

definition login ::
  "ApiAuthService \<Rightarrow> (js \<Rightarrow> string) \<Rightarrow> 'u AuthResponse Fetch \<Rightarrow> string \<Rightarrow> string \<Rightarrow> World
     \<Rightarrow> (Thrown + 'u) \<times> World" where
  "login svc stringify fetch username password w =
     (let endpoint = ''/auth/login'';
          options = \<lparr>method = Some ''POST'',
                     body = Some (stringify (JObj [(''username'', JStr username),
                                                   (''password'', JStr password)])),
                     headers = [], credentials = None\<rparr>
      in case AuthService_makeRequest svc fetch endpoint options w of
           (Inl e, w') \<Rightarrow> (Inl e, w')
         | (Inr response, w') \<Rightarrow>
             (Inr (user response),
              w'\<lparr>tokenManager := setToken (token response) (tokenManager w')\<rparr>))"

definition register ::
  "ApiAuthService \<Rightarrow> (js \<Rightarrow> string) \<Rightarrow> 'u AuthResponse Fetch \<Rightarrow> obj \<Rightarrow> World
     \<Rightarrow> (Thrown + 'u) \<times> World" where
  "register svc stringify fetch userData w =
     (let endpoint = ''/auth/register'';
          options = \<lparr>method = Some ''POST'',
                     body = Some (stringify (JObj [(''username'', field userData ''username''),
                                                   (''password'', field userData ''password'')])),
                     headers = [], credentials = None\<rparr>
      in case AuthService_makeRequest svc fetch endpoint options w of
           (Inl e, w') \<Rightarrow> (Inl e, w')
         | (Inr response, w') \<Rightarrow>
             (Inr (user response),
              w'\<lparr>tokenManager := setToken (token response) (tokenManager w')\<rparr>))"

definition logout ::
  "ApiAuthService \<Rightarrow> 'm Fetch \<Rightarrow> World \<Rightarrow> (Thrown + unit) \<times> World" where
  "logout svc fetch w =
     (let endpoint = ''/auth/logout'';
          options = \<lparr>method = Some ''POST'', body = None, headers = [], credentials = None\<rparr>
      in case AuthService_makeRequest svc fetch endpoint options w of
           (Inr _, w') \<Rightarrow> (Inr (), w')
         | (Inl err, w') \<Rightarrow> (Inr (), w'\<lparr>tokenManager := clearToken (tokenManager w')\<rparr>))"

definition refreshToken ::
  "ApiAuthService \<Rightarrow> 'u AuthResponse Fetch \<Rightarrow> World \<Rightarrow> (Thrown + 'u) \<times> World" where
  "refreshToken svc fetch w =
     (let endpoint = ''/auth/refresh'';
          options = \<lparr>method = Some ''POST'', body = None, headers = [], credentials = None\<rparr>
      in case AuthService_makeRequest svc fetch endpoint options w of
           (Inl e, w') \<Rightarrow> (Inl e, w')
         | (Inr response, w') \<Rightarrow>
             (Inr (user response),
              w'\<lparr>tokenManager := setToken (token response) (tokenManager w')\<rparr>))"

definition getCurrentUser ::
  "ApiAuthService \<Rightarrow> 'u Fetch \<Rightarrow> World \<Rightarrow> (Thrown + 'u option) \<times> World" where
  "getCurrentUser svc fetch w =
     (let endpoint = ''/auth/me'';
          options = \<lparr>method = Some ''GET'', body = None, headers = [], credentials = None\<rparr>
      in case AuthService_makeRequest svc fetch endpoint options w of
           (Inr response, w') \<Rightarrow> (Inr (Some response), w')
         | (Inl err, w') \<Rightarrow> (Inr None, w'\<lparr>tokenManager := clearToken (tokenManager w')\<rparr>))"

section \<open>ApiChatService\<close>

record ApiChatService =
  baseUrl :: string

definition ChatService_makeRequest ::
  "ApiChatService \<Rightarrow> 'a Fetch \<Rightarrow> string \<Rightarrow> RequestInit \<Rightarrow> World \<Rightarrow> (Thrown + 'a) \<times> World" where
  "ChatService_makeRequest svc fetch endpoint options w =
     (let url = baseUrl svc @ endpoint;
          token = getToken (tokenManager w);
          hdrs0 = spread [(''Content-Type'', ''application/json'')] (headers options);
          hdrs = (case token of
                    None \<Rightarrow> hdrs0
                  | Some t \<Rightarrow>
                      if t \<noteq> [] then AList.update ''Authorization'' (''Bearer '' @ t) hdrs0
                      else hdrs0);
          fetchOptions = options\<lparr>headers := hdrs, credentials := Some ''include''\<rparr>;
          w' = w\<lparr>fetched := fetched w @ [(url, fetchOptions)]\<rparr>
      in case fetch url fetchOptions of
           Rejected e \<Rightarrow> (Inl e, w')
         | Resolved response \<Rightarrow>
             if \<not> ok response then
               (Inl (Error (''Request failed with status '' @ toString (status response)
                              @ '': '' @ text_body response)), w')
             else (case json_body response of
                     Inl e \<Rightarrow> (Inl e, w')
                   | Inr data \<Rightarrow> (Inr data, w')))"

definition GET :: RequestInit where
  "GET = \<lparr>method = Some ''GET'', body = None, headers = [], credentials = None\<rparr>"

definition POST :: RequestInit where
  "POST = \<lparr>method = Some ''POST'', body = None, headers = [], credentials = None\<rparr>"

definition getConversations ::
  "ApiChatService \<Rightarrow> 'a Fetch \<Rightarrow> World \<Rightarrow> (Thrown + 'a) \<times> World" where
  "getConversations svc fetch w = ChatService_makeRequest svc fetch ''/conversations'' GET w"

definition getConversation ::
  "ApiChatService \<Rightarrow> 'a Fetch \<Rightarrow> string \<Rightarrow> World \<Rightarrow> (Thrown + 'a) \<times> World" where
  "getConversation svc fetch ident w =
     ChatService_makeRequest svc fetch (''/conversations/'' @ ident) GET w"

definition createConversation ::
  "ApiChatService \<Rightarrow> (js \<Rightarrow> string) \<Rightarrow> 'a Fetch \<Rightarrow> obj \<Rightarrow> World \<Rightarrow> (Thrown + 'a) \<times> World" where
  "createConversation svc stringify fetch request w =
     ChatService_makeRequest svc fetch ''/conversations''
       \<lparr>method = Some ''POST'',
        body = Some (stringify (JObj [(''title'', field request ''title'')])),
        headers = [], credentials = None\<rparr> w"

definition updateConversation ::
  "string \<Rightarrow> obj \<Rightarrow> World \<Rightarrow> (Thrown + 'a) \<times> World" where
  "updateConversation ident request w =
     (Inl (Error ''updateConversation method not implemented''), w)"

definition deleteConversation ::
  "string \<Rightarrow> World \<Rightarrow> (Thrown + 'a) \<times> World" where
  "deleteConversation ident w =
     (Inl (Error ''deleteConversation method not implemented''), w)"

definition getMessages ::
  "ApiChatService \<Rightarrow> 'a Fetch \<Rightarrow> string \<Rightarrow> World \<Rightarrow> (Thrown + 'a) \<times> World" where
  "getMessages svc fetch conversationId w =
     ChatService_makeRequest svc fetch (''/conversations/'' @ conversationId @ ''/messages'') GET w"

definition sendMessage ::
  "ApiChatService \<Rightarrow> (js \<Rightarrow> string) \<Rightarrow> 'a Fetch \<Rightarrow> obj \<Rightarrow> World \<Rightarrow> (Thrown + 'a) \<times> World" where
  "sendMessage svc stringify fetch request w =
     ChatService_makeRequest svc fetch ''/messages''
       \<lparr>method = Some ''POST'',
        body = Some (stringify (JObj [(''conversationId'', field request ''conversationId''),
                                      (''content'', field request ''content'')])),
        headers = [], credentials = None\<rparr> w"

definition markMessageAsRead ::
  "string \<Rightarrow> World \<Rightarrow> (Thrown + 'a) \<times> World" where
  "markMessageAsRead messageId w =
     (Inl (Error ''markMessageAsRead method not implemented''), w)"

definition getExpertQueue ::
  "ApiChatService \<Rightarrow> 'a Fetch \<Rightarrow> World \<Rightarrow> (Thrown + 'a) \<times> World" where
  "getExpertQueue svc fetch w = ChatService_makeRequest svc fetch ''/expert/queue'' GET w"

definition claimConversation ::
  "ApiChatService \<Rightarrow> 'a Fetch \<Rightarrow> string \<Rightarrow> World \<Rightarrow> (Thrown + 'a) \<times> World" where
  "claimConversation svc fetch conversationId w =
     ChatService_makeRequest svc fetch
       (''/expert/conversations/'' @ conversationId @ ''/claim'') POST w"

definition unclaimConversation ::
  "ApiChatService \<Rightarrow> 'a Fetch \<Rightarrow> string \<Rightarrow> World \<Rightarrow> (Thrown + 'a) \<times> World" where
  "unclaimConversation svc fetch conversationId w =
     ChatService_makeRequest svc fetch
       (''/expert/conversations/'' @ conversationId @ ''/unclaim'') POST w"

definition getExpertProfile ::
  "ApiChatService \<Rightarrow> 'a Fetch \<Rightarrow> World \<Rightarrow> (Thrown + 'a) \<times> World" where
  "getExpertProfile svc fetch w = ChatService_makeRequest svc fetch ''/expert/profile'' GET w"

definition updateExpertProfile ::
  "ApiChatService \<Rightarrow> (js \<Rightarrow> string) \<Rightarrow> 'a Fetch \<Rightarrow> obj \<Rightarrow> World \<Rightarrow> (Thrown + 'a) \<times> World" where
  "updateExpertProfile svc stringify fetch request w =
     ChatService_makeRequest svc fetch ''/expert/profile''
       \<lparr>method = Some ''PUT'',
        body = Some (stringify (JObj [(''bio'', field request ''bio''),
                                      (''knowledgeBaseLinks'', field request ''knowledgeBaseLinks'')])),
        headers = [], credentials = None\<rparr> w"

definition getExpertAssignmentHistory ::
  "ApiChatService \<Rightarrow> 'a Fetch \<Rightarrow> World \<Rightarrow> (Thrown + 'a) \<times> World" where
  "getExpertAssignmentHistory svc fetch w =
     ChatService_makeRequest svc fetch ''/expert/assignments/history'' GET w"

text \<open>
  The \<open>ChatService\<close> interface as the class implements it: its fourteen methods, and a
  call of one of them on arguments taken from an identifier and a request object (each
  method uses the ones its signature has).
\<close>

datatype ChatMethod =
    M_getConversations
  | M_getConversation
  | M_createConversation
  | M_updateConversation
  | M_deleteConversation
  | M_getMessages
  | M_sendMessage
  | M_markMessageAsRead
  | M_getExpertQueue
  | M_claimConversation
  | M_unclaimConversation
  | M_getExpertProfile
  | M_updateExpertProfile
  | M_getExpertAssignmentHistory

fun ChatService_call ::
  "ApiChatService \<Rightarrow> (js \<Rightarrow> string) \<Rightarrow> 'a Fetch \<Rightarrow> ChatMethod \<Rightarrow> string \<Rightarrow> obj \<Rightarrow> World
     \<Rightarrow> (Thrown + 'a) \<times> World" where
  "ChatService_call svc stringify fetch M_getConversations ident request w =
     getConversations svc fetch w"
| "ChatService_call svc stringify fetch M_getConversation ident request w =
     getConversation svc fetch ident w"
| "ChatService_call svc stringify fetch M_createConversation ident request w =
     createConversation svc stringify fetch request w"
| "ChatService_call svc stringify fetch M_updateConversation ident request w =
     updateConversation ident request w"
| "ChatService_call svc stringify fetch M_deleteConversation ident request w =
     deleteConversation ident w"
| "ChatService_call svc stringify fetch M_getMessages ident request w =
     getMessages svc fetch ident w"
| "ChatService_call svc stringify fetch M_sendMessage ident request w =
     sendMessage svc stringify fetch request w"
| "ChatService_call svc stringify fetch M_markMessageAsRead ident request w =
     markMessageAsRead ident w"
| "ChatService_call svc stringify fetch M_getExpertQueue ident request w =
     getExpertQueue svc fetch w"
| "ChatService_call svc stringify fetch M_claimConversation ident request w =
     claimConversation svc fetch ident w"
| "ChatService_call svc stringify fetch M_unclaimConversation ident request w =
     unclaimConversation svc fetch ident w"
| "ChatService_call svc stringify fetch M_getExpertProfile ident request w =
     getExpertProfile svc fetch w"
| "ChatService_call svc stringify fetch M_updateExpertProfile ident request w =
     updateExpertProfile svc stringify fetch request w"
| "ChatService_call svc stringify fetch M_getExpertAssignmentHistory ident request w =
     getExpertAssignmentHistory svc fetch w"

section \<open>Observing a call\<close>

text \<open>
  The most recent call to \<open>fetch\<close> recorded in a world, and what \<open>fetch\<close> settled
  it with; \<open>None\<close> when nothing was ever requested.
\<close>

definition last_request :: "World \<Rightarrow> (string \<times> RequestInit) option" where
  "last_request w = (case rev (fetched w) of [] \<Rightarrow> None | x # _ \<Rightarrow> Some x)"

definition last_answer :: "'a Fetch \<Rightarrow> World \<Rightarrow> 'a FetchResult option" where
  "last_answer fetch w = map_option (\<lambda>(url, opts). fetch url opts) (last_request w)"

text \<open>
  The four ways a call that stores the envelope's token can end, read off the request
  executor and the three methods built on it (login, register, refreshToken): the
  transport fails, the response is not ok, its body is not JSON, or the envelope arrives.
  Only the last one touches the token manager.
\<close>

definition envelope_outcome ::
  "'u AuthResponse Fetch \<Rightarrow> World \<Rightarrow> (Thrown + 'u) \<times> World \<Rightarrow> bool" where
  "envelope_outcome fetch w res =
     ((\<exists>e. last_answer fetch (snd res) = Some (Rejected e) \<and> fst res = Inl e
          \<and> tokenManager (snd res) = tokenManager w) \<or>
      (\<exists>r. last_answer fetch (snd res) = Some (Resolved r) \<and> \<not> ok r
          \<and> fst res = Inl (Error (''Request failed with status '' @ toString (status r)
                                    @ '': '' @ text_body r))
          \<and> tokenManager (snd res) = tokenManager w) \<or>
      (\<exists>r e. last_answer fetch (snd res) = Some (Resolved r) \<and> ok r
          \<and> json_body r = Inl e \<and> fst res = Inl e
          \<and> tokenManager (snd res) = tokenManager w) \<or>
      (\<exists>r env. last_answer fetch (snd res) = Some (Resolved r) \<and> ok r
          \<and> json_body r = Inr env \<and> fst res = Inr (user env)
          \<and> tokenManager (snd res) = setToken (token env) (tokenManager w)))"

text \<open>A network that settles every call the same way, as a test double does.\<close>

definition mock :: "'a FetchResult \<Rightarrow> 'a Fetch" where
  "mock result url opts = result"

text \<open>
  A method is an unimplemented placeholder when every call of it fails with one fixed
  message and leaves the world as it was: no request is made and the token manager is
  not touched.
\<close>

definition placeholder :: "ChatMethod \<Rightarrow> bool" where
  "placeholder m =
     (\<exists>msg. \<forall>svc stringify (fetch :: js Fetch) ident request w.
        ChatService_call svc stringify fetch m ident request w = (Inl (Error msg), w))"

section \<open>Example inputs\<close>

text \<open>
  A stand-in for \<open>JSON.stringify\<close> in the examples; the services take the serialiser as
  a parameter, and every property below holds whichever it is.
\<close>

definition opaque :: "js \<Rightarrow> string" where
  "opaque v = ''<json>''"

definition auth0 :: ApiAuthService where
  "auth0 = \<lparr>ApiAuthService.baseUrl = ''http://localhost:3000''\<rparr>"

definition chat0 :: ApiChatService where
  "chat0 = \<lparr>ApiChatService.baseUrl = ''http://localhost:3000''\<rparr>"

definition signed_out :: World where
  "signed_out = \<lparr>tokenManager = \<lparr>stored = None\<rparr>, fetched = []\<rparr>"

definition signed_in :: "string \<Rightarrow> World" where
  "signed_in t = \<lparr>tokenManager = \<lparr>stored = Some t\<rparr>, fetched = []\<rparr>"

definition respond :: "nat \<Rightarrow> string \<Rightarrow> 'a \<Rightarrow> 'a Fetch" where
  "respond s t v = mock (Resolved \<lparr>ok = (200 \<le> s \<and> s \<le> 299), status = s, text_body = t,
                                    json_body = Inr v\<rparr>)"

section \<open>Shared lemmas\<close>

lemma getToken_setToken: "getToken (setToken t tm) = Some t"
  by (simp add: getToken_def setToken_def)

lemma getToken_clearToken: "getToken (clearToken tm) = None"
  by (simp add: getToken_def clearToken_def)

lemma last_answer_tokenManager:
  "last_answer fetch (w\<lparr>tokenManager := tm\<rparr>) = last_answer fetch w"
  by (simp add: last_answer_def last_request_def)

lemma AuthService_makeRequest_cases:
  fixes fetch :: "'a Fetch" and svc endpoint options w
  defines "res \<equiv> AuthService_makeRequest svc fetch endpoint options w"
  shows "tokenManager (snd res) = tokenManager w \<and>
     ((\<exists>e. last_answer fetch (snd res) = Some (Rejected e) \<and> fst res = Inl e) \<or>
      (\<exists>r. last_answer fetch (snd res) = Some (Resolved r) \<and> \<not> ok r \<and>
          fst res = Inl (Error (''Request failed with status '' @ toString (status r)
                                  @ '': '' @ text_body r))) \<or>
      (\<exists>r e. last_answer fetch (snd res) = Some (Resolved r) \<and> ok r \<and>
          json_body r = Inl e \<and> fst res = Inl e) \<or>
      (\<exists>r v. last_answer fetch (snd res) = Some (Resolved r) \<and> ok r \<and>
          json_body r = Inr v \<and> fst res = Inr v))"
  unfolding res_def
  by (auto simp add: AuthService_makeRequest_def Let_def last_answer_def last_request_def
           split: FetchResult.split sum.split)

lemma envelope_cases:
  fixes fetch :: "'u AuthResponse Fetch"
  shows "envelope_outcome fetch w
     (case AuthService_makeRequest svc fetch endpoint options w of
        (Inl e, w') \<Rightarrow> (Inl e, w')
      | (Inr response, w') \<Rightarrow>
          (Inr (user response),
           w'\<lparr>tokenManager := setToken (token response) (tokenManager w')\<rparr>))"
proof -
  obtain x w' where M: "AuthService_makeRequest svc fetch endpoint options w = (x, w')"
    by (cases "AuthService_makeRequest svc fetch endpoint options w")
  from AuthService_makeRequest_cases [of svc fetch endpoint options w] M
  show ?thesis
    unfolding envelope_outcome_def
    by (cases x) (auto simp add: last_answer_tokenManager)
qed

lemma login_outcome:
  "envelope_outcome fetch w (login svc stringify fetch username password w)"
  unfolding login_def Let_def by (rule envelope_cases)

lemma register_outcome:
  "envelope_outcome fetch w (register svc stringify fetch userData w)"
  unfolding register_def Let_def by (rule envelope_cases)

lemma refreshToken_outcome:
  "envelope_outcome fetch w (refreshToken svc fetch w)"
  unfolding refreshToken_def Let_def by (rule envelope_cases)

lemma envelope_success:
  assumes "envelope_outcome fetch w res"
  shows "(\<forall>usr. fst res = Inr usr \<longrightarrow>
            (\<exists>r env. last_answer fetch (snd res) = Some (Resolved r) \<and> ok r
               \<and> json_body r = Inr env \<and> usr = user env
               \<and> getToken (tokenManager (snd res)) = Some (token env)))
       \<and> (\<forall>r env. last_answer fetch (snd res) = Some (Resolved r) \<and> ok r \<and> json_body r = Inr env
            \<longrightarrow> fst res = Inr (user env)
               \<and> getToken (tokenManager (snd res)) = Some (token env))"
  using assms unfolding envelope_outcome_def by (auto simp add: getToken_setToken)

lemma envelope_failure:
  assumes "envelope_outcome fetch w res"
  shows "(\<forall>e. fst res = Inl e \<longrightarrow> tokenManager (snd res) = tokenManager w)
       \<and> (\<forall>e. last_answer fetch (snd res) = Some (Rejected e)
            \<longrightarrow> fst res = Inl e \<and> tokenManager (snd res) = tokenManager w)
       \<and> (\<forall>r. last_answer fetch (snd res) = Some (Resolved r) \<and> \<not> ok r
            \<longrightarrow> fst res = Inl (Error (''Request failed with status '' @ toString (status r)
                                        @ '': '' @ text_body r))
               \<and> tokenManager (snd res) = tokenManager w)"
  using assms unfolding envelope_outcome_def by auto

section \<open>Properties of ApiAuthService\<close>

lemma AuthService_makeRequest_appends:
  "fetched (snd (AuthService_makeRequest svc fetch endpoint options w)) =
     fetched w @ [(ApiAuthService.baseUrl svc @ endpoint,
                   options\<lparr>headers := spread [(''Content-Type'', ''application/json'')]
                                         (headers options),
                           credentials := Some ''include''\<rparr>)]"
  by (simp add: AuthService_makeRequest_def Let_def split: FetchResult.split sum.split)

lemma envelope_appends:
  "fetched (snd (case AuthService_makeRequest svc fetch endpoint options w of
        (Inl e, w') \<Rightarrow> (Inl e, w')
      | (Inr response, w') \<Rightarrow>
          (Inr (user response),
           w'\<lparr>tokenManager := setToken (token response) (tokenManager w')\<rparr>))) =
     fetched w @ [(ApiAuthService.baseUrl svc @ endpoint,
                   options\<lparr>headers := spread [(''Content-Type'', ''application/json'')]
                                         (headers options),
                           credentials := Some ''include''\<rparr>)]"
  using AuthService_makeRequest_appends [of svc fetch endpoint options w]
  by (cases "AuthService_makeRequest svc fetch endpoint options w")
     (auto split: sum.split)

lemma login_appends:
  "fetched (snd (login svc stringify fetch username password w)) =
     fetched w @ [(ApiAuthService.baseUrl svc @ ''/auth/login'',
                   \<lparr>method = Some ''POST'',
                    body = Some (stringify (JObj [(''username'', JStr username),
                                                  (''password'', JStr password)])),
                    headers = [(''Content-Type'', ''application/json'')],
                    credentials = Some ''include''\<rparr>)]"
  unfolding login_def Let_def by (simp add: envelope_appends spread_def)

lemma register_appends:
  "fetched (snd (register svc stringify fetch userData w)) =
     fetched w @ [(ApiAuthService.baseUrl svc @ ''/auth/register'',
                   \<lparr>method = Some ''POST'',
                    body = Some (stringify (JObj [(''username'', field userData ''username''),
                                                  (''password'', field userData ''password'')])),
                    headers = [(''Content-Type'', ''application/json'')],
                    credentials = Some ''include''\<rparr>)]"
  unfolding register_def Let_def by (simp add: envelope_appends spread_def)

text \<open>
  C3. \<open>login\<close> and \<open>register\<close> each send exactly one request: a POST to
  \<open>/auth/login\<close> or \<open>/auth/register\<close> with the user name and password as body. After
  a successful call the token manager holds exactly the \<open>token\<close> of the envelope the
  server answered that request with, and the call returns the envelope's \<open>user\<close>; and
  whenever the server answers the request with an ok response carrying an envelope, the
  call is such a success.
\<close>

theorem login_register_success:
  fixes fetch :: "'u AuthResponse Fetch" and svc stringify username password userData w
  defines "L \<equiv> login svc stringify fetch username password w"
      and "R \<equiv> register svc stringify fetch userData w"
  shows "(\<forall>usr. fst L = Inr usr \<longrightarrow>
            (\<exists>r env. last_answer fetch (snd L) = Some (Resolved r) \<and> ok r
               \<and> json_body r = Inr env \<and> usr = user env
               \<and> getToken (tokenManager (snd L)) = Some (token env)))
       \<and> (\<forall>r env. last_answer fetch (snd L) = Some (Resolved r) \<and> ok r \<and> json_body r = Inr env
            \<longrightarrow> fst L = Inr (user env) \<and> getToken (tokenManager (snd L)) = Some (token env))
       \<and> (\<forall>usr. fst R = Inr usr \<longrightarrow>
            (\<exists>r env. last_answer fetch (snd R) = Some (Resolved r) \<and> ok r
               \<and> json_body r = Inr env \<and> usr = user env
               \<and> getToken (tokenManager (snd R)) = Some (token env)))
       \<and> (\<forall>r env. last_answer fetch (snd R) = Some (Resolved r) \<and> ok r \<and> json_body r = Inr env
            \<longrightarrow> fst R = Inr (user env) \<and> getToken (tokenManager (snd R)) = Some (token env))
       \<and> fetched (snd L) =
            fetched w @ [(ApiAuthService.baseUrl svc @ ''/auth/login'',
                          \<lparr>method = Some ''POST'',
                           body = Some (stringify (JObj [(''username'', JStr username),
                                                         (''password'', JStr password)])),
                           headers = [(''Content-Type'', ''application/json'')],
                           credentials = Some ''include''\<rparr>)]
       \<and> fetched (snd R) =
            fetched w @ [(ApiAuthService.baseUrl svc @ ''/auth/register'',
                          \<lparr>method = Some ''POST'',
                           body = Some (stringify
                                          (JObj [(''username'', field userData ''username''),
                                                 (''password'', field userData ''password'')])),
                           headers = [(''Content-Type'', ''application/json'')],
                           credentials = Some ''include''\<rparr>)]"
proof -
  have answers:
    "(\<forall>usr. fst L = Inr usr \<longrightarrow>
            (\<exists>r env. last_answer fetch (snd L) = Some (Resolved r) \<and> ok r
               \<and> json_body r = Inr env \<and> usr = user env
               \<and> getToken (tokenManager (snd L)) = Some (token env)))
       \<and> (\<forall>r env. last_answer fetch (snd L) = Some (Resolved r) \<and> ok r \<and> json_body r = Inr env
            \<longrightarrow> fst L = Inr (user env) \<and> getToken (tokenManager (snd L)) = Some (token env))
       \<and> (\<forall>usr. fst R = Inr usr \<longrightarrow>
            (\<exists>r env. last_answer fetch (snd R) = Some (Resolved r) \<and> ok r
               \<and> json_body r = Inr env \<and> usr = user env
               \<and> getToken (tokenManager (snd R)) = Some (token env)))
       \<and> (\<forall>r env. last_answer fetch (snd R) = Some (Resolved r) \<and> ok r \<and> json_body r = Inr env
            \<longrightarrow> fst R = Inr (user env) \<and> getToken (tokenManager (snd R)) = Some (token env))"
    unfolding L_def R_def
    using envelope_success [OF login_outcome [of fetch w svc stringify username password]]
          envelope_success [OF register_outcome [of fetch w svc stringify userData]]
    by blast
  have sent_login: "fetched (snd L) =
            fetched w @ [(ApiAuthService.baseUrl svc @ ''/auth/login'',
                          \<lparr>method = Some ''POST'',
                           body = Some (stringify (JObj [(''username'', JStr username),
                                                         (''password'', JStr password)])),
                           headers = [(''Content-Type'', ''application/json'')],
                           credentials = Some ''include''\<rparr>)]"
    unfolding L_def by (rule login_appends)
  have sent_register: "fetched (snd R) =
            fetched w @ [(ApiAuthService.baseUrl svc @ ''/auth/register'',
                          \<lparr>method = Some ''POST'',
                           body = Some (stringify
                                          (JObj [(''username'', field userData ''username''),
                                                 (''password'', field userData ''password'')])),
                           headers = [(''Content-Type'', ''application/json'')],
                           credentials = Some ''include''\<rparr>)]"
    unfolding R_def by (rule register_appends)
  from answers sent_login sent_register show ?thesis by (intro conjI) (elim conjE, assumption)+
qed

text \<open>
  The scenario of the spec: \<open>login("alice", "pw")\<close> against a server answering
  \<open>{user: {id: "u1"}, token: "t1"}\<close> returns \<open>{id: "u1"}\<close> and leaves the credential
  \<open>"t1"\<close>. Likewise \<open>register({username: "bob", password: "pw2"})\<close> against a server
  answering 201 with \<open>{user: {id: "u2"}, token: "t9"}\<close> returns \<open>{id: "u2"}\<close>, leaves the
  credential \<open>"t9"\<close> and has sent one request, to \<open>/auth/register\<close>.
\<close>

theorem login_register_success_witness:
  "fst (login auth0 opaque
          (respond 200 [] \<lparr>user = JObj [(''id'', JStr ''u1'')], token = ''t1''\<rparr>)
          ''alice'' ''pw'' signed_out) = Inr (JObj [(''id'', JStr ''u1'')])
   \<and> getToken (tokenManager (snd (login auth0 opaque
          (respond 200 [] \<lparr>user = JObj [(''id'', JStr ''u1'')], token = ''t1''\<rparr>)
          ''alice'' ''pw'' signed_out))) = Some ''t1''
   \<and> fst (register auth0 opaque
          (respond 201 [] \<lparr>user = JObj [(''id'', JStr ''u2'')], token = ''t9''\<rparr>)
          [(''username'', JStr ''bob''), (''password'', JStr ''pw2'')] signed_out)
       = Inr (JObj [(''id'', JStr ''u2'')])
   \<and> getToken (tokenManager (snd (register auth0 opaque
          (respond 201 [] \<lparr>user = JObj [(''id'', JStr ''u2'')], token = ''t9''\<rparr>)
          [(''username'', JStr ''bob''), (''password'', JStr ''pw2'')] signed_out))) = Some ''t9''
   \<and> map fst (fetched (snd (register auth0 opaque
          (respond 201 [] \<lparr>user = JObj [(''id'', JStr ''u2'')], token = ''t9''\<rparr>)
          [(''username'', JStr ''bob''), (''password'', JStr ''pw2'')] signed_out)))
       = [''http://localhost:3000/auth/register'']"
  using login_register_success
          [where svc = auth0 and stringify = opaque and username = "''alice''"
             and password = "''pw''" and w = signed_out
             and userData = "[(''username'', JStr ''bob''), (''password'', JStr ''pw2'')]"
             and fetch = "respond 200 [] \<lparr>user = JObj [(''id'', JStr ''u1'')], token = ''t1''\<rparr>"]
        login_register_success
          [where svc = auth0 and stringify = opaque and username = "''alice''"
             and password = "''pw''" and w = signed_out
             and userData = "[(''username'', JStr ''bob''), (''password'', JStr ''pw2'')]"
             and fetch = "respond 201 [] \<lparr>user = JObj [(''id'', JStr ''u2'')], token = ''t9''\<rparr>"]
  by (simp add: login_def register_def AuthService_makeRequest_def Let_def respond_def mock_def
                last_answer_def last_request_def signed_out_def setToken_def auth0_def
                field_def getToken_def)

text \<open>
  C4. A failed \<open>login\<close> or \<open>register\<close> leaves the token manager as it was, and the
  failure of the request reaches the caller unchanged: the value \<open>fetch\<close> rejected
  with on a transport error, the \<open>Request failed\<close> error with the status and the body
  text on a response that is not ok.
\<close>

theorem login_register_failure:
  fixes fetch :: "'u AuthResponse Fetch" and svc stringify username password userData w
  defines "L \<equiv> login svc stringify fetch username password w"
      and "R \<equiv> register svc stringify fetch userData w"
  shows "(\<forall>e. fst L = Inl e \<longrightarrow> tokenManager (snd L) = tokenManager w)
       \<and> (\<forall>e. last_answer fetch (snd L) = Some (Rejected e)
            \<longrightarrow> fst L = Inl e \<and> tokenManager (snd L) = tokenManager w)
       \<and> (\<forall>r. last_answer fetch (snd L) = Some (Resolved r) \<and> \<not> ok r
            \<longrightarrow> fst L = Inl (Error (''Request failed with status '' @ toString (status r)
                                      @ '': '' @ text_body r))
               \<and> tokenManager (snd L) = tokenManager w)
       \<and> (\<forall>e. fst R = Inl e \<longrightarrow> tokenManager (snd R) = tokenManager w)
       \<and> (\<forall>e. last_answer fetch (snd R) = Some (Rejected e)
            \<longrightarrow> fst R = Inl e \<and> tokenManager (snd R) = tokenManager w)
       \<and> (\<forall>r. last_answer fetch (snd R) = Some (Resolved r) \<and> \<not> ok r
            \<longrightarrow> fst R = Inl (Error (''Request failed with status '' @ toString (status r)
                                      @ '': '' @ text_body r))
               \<and> tokenManager (snd R) = tokenManager w)"
  unfolding L_def R_def
  using envelope_failure [OF login_outcome [of fetch w svc stringify username password]]
        envelope_failure [OF register_outcome [of fetch w svc stringify userData]]
  by blast

theorem login_register_failure_witness:
  "fst (login auth0 opaque (mock (Rejected (TypeError ''Failed to fetch'')))
          ''alice'' ''pw'' (signed_in ''t0'')) = Inl (TypeError ''Failed to fetch'')
   \<and> getToken (tokenManager (snd (login auth0 opaque
          (mock (Rejected (TypeError ''Failed to fetch''))) ''alice'' ''pw'' (signed_in ''t0''))))
       = Some ''t0''"
  using login_register_failure
          [where svc = auth0 and stringify = opaque and username = "''alice''"
             and password = "''pw''" and w = "signed_in ''t0''" and userData = "[]"
             and fetch = "mock (Rejected (TypeError ''Failed to fetch''))"]
  by (simp add: login_def AuthService_makeRequest_def Let_def mock_def getToken_def
                last_answer_def last_request_def signed_in_def)

text \<open>
  C5. \<open>refreshToken\<close>: when the server answers with an envelope, its token replaces the
  stored credential and its user is returned; when the request fails, the failure reaches
  the caller and the token manager is left as it was.
\<close>

theorem refreshToken_replaces_or_keeps:
  fixes fetch :: "'u AuthResponse Fetch" and svc w
  defines "res \<equiv> refreshToken svc fetch w"
  shows "(\<forall>usr. fst res = Inr usr \<longrightarrow>
            (\<exists>r env. last_answer fetch (snd res) = Some (Resolved r) \<and> ok r
               \<and> json_body r = Inr env \<and> usr = user env
               \<and> getToken (tokenManager (snd res)) = Some (token env)))
       \<and> (\<forall>r env. last_answer fetch (snd res) = Some (Resolved r) \<and> ok r \<and> json_body r = Inr env
            \<longrightarrow> fst res = Inr (user env)
               \<and> getToken (tokenManager (snd res)) = Some (token env))
       \<and> (\<forall>e. fst res = Inl e \<longrightarrow> tokenManager (snd res) = tokenManager w)
       \<and> (\<forall>e. last_answer fetch (snd res) = Some (Rejected e)
            \<longrightarrow> fst res = Inl e \<and> tokenManager (snd res) = tokenManager w)
       \<and> (\<forall>r. last_answer fetch (snd res) = Some (Resolved r) \<and> \<not> ok r
            \<longrightarrow> fst res = Inl (Error (''Request failed with status '' @ toString (status r)
                                        @ '': '' @ text_body r))
               \<and> tokenManager (snd res) = tokenManager w)"
  unfolding res_def
  using envelope_success [OF refreshToken_outcome [of fetch w svc]]
        envelope_failure [OF refreshToken_outcome [of fetch w svc]]
  by blast

theorem refreshToken_replaces_or_keeps_witness:
  "fst (refreshToken auth0 (respond 200 [] \<lparr>user = JStr ''alice'', token = ''t2''\<rparr>)
          (signed_in ''t1'')) = Inr (JStr ''alice'')
   \<and> getToken (tokenManager (snd (refreshToken auth0
          (respond 200 [] \<lparr>user = JStr ''alice'', token = ''t2''\<rparr>) (signed_in ''t1''))))
       = Some ''t2''
   \<and> fst (refreshToken auth0 (respond 401 ''expired'' \<lparr>user = JNull, token = []\<rparr>)
          (signed_in ''t1'')) = Inl (Error ''Request failed with status 401: expired'')
   \<and> getToken (tokenManager (snd (refreshToken auth0
          (respond 401 ''expired'' \<lparr>user = JNull, token = []\<rparr>) (signed_in ''t1''))))
       = Some ''t1''"
  using refreshToken_replaces_or_keeps
          [where svc = auth0 and w = "signed_in ''t1''"
             and fetch = "respond 200 [] \<lparr>user = JStr ''alice'', token = ''t2''\<rparr>"]
        refreshToken_replaces_or_keeps
          [where svc = auth0 and w = "signed_in ''t1''"
             and fetch = "respond 401 ''expired'' \<lparr>user = JNull, token = []\<rparr>"]
  by (simp add: refreshToken_def AuthService_makeRequest_def Let_def respond_def mock_def
                last_answer_def last_request_def signed_in_def setToken_def getToken_def
                toString.simps digit_def)

text \<open>
  C2. \<open>getCurrentUser\<close> never fails: it returns the user of a successful response, or
  \<open>null\<close> (\<open>None\<close>); a returned user is the body the server sent; and whenever the request
  fails (transport error, response not ok, body not JSON) the result is \<open>null\<close> and the
  stored credential is absent afterwards.
\<close>

theorem getCurrentUser_never_fails:
  fixes fetch :: "'u Fetch" and svc w
  defines "res \<equiv> getCurrentUser svc fetch w"
  defines "succeeded \<equiv> (\<exists>r v. last_answer fetch (snd res) = Some (Resolved r) \<and> ok r
                              \<and> json_body r = Inr v)"
  shows "(\<exists>u. fst res = Inr u)
       \<and> (\<forall>r v. last_answer fetch (snd res) = Some (Resolved r) \<and> ok r \<and> json_body r = Inr v
            \<longrightarrow> fst res = Inr (Some v))
       \<and> (\<forall>v. fst res = Inr (Some v) \<longrightarrow>
            (\<exists>r. last_answer fetch (snd res) = Some (Resolved r) \<and> ok r \<and> json_body r = Inr v))
       \<and> (\<not> succeeded \<longrightarrow>
            fst res = Inr None \<and> getToken (tokenManager (snd res)) = None)"
proof -
  let ?opts = "\<lparr>method = Some ''GET'', body = None, headers = [], credentials = None\<rparr>"
  obtain x w' where M: "AuthService_makeRequest svc fetch ''/auth/me'' ?opts w = (x, w')"
    by (cases "AuthService_makeRequest svc fetch ''/auth/me'' ?opts w")
  from AuthService_makeRequest_cases [of svc fetch "''/auth/me''" ?opts w] M
  show ?thesis
    unfolding res_def succeeded_def getCurrentUser_def Let_def
    by (cases x) (auto simp add: last_answer_tokenManager getToken_clearToken)
qed

theorem getCurrentUser_never_fails_witness:
  "fst (getCurrentUser auth0 (respond 401 ''Unauthorized'' JNull) (signed_in ''t1'')) = Inr None
   \<and> getToken (tokenManager (snd (getCurrentUser auth0 (respond 401 ''Unauthorized'' JNull)
                                     (signed_in ''t1'')))) = None
   \<and> fst (getCurrentUser auth0 (respond 200 [] (JObj [(''id'', JStr ''u1'')])) (signed_in ''t1''))
       = Inr (Some (JObj [(''id'', JStr ''u1'')]))"
  using getCurrentUser_never_fails [where svc = auth0 and w = "signed_in ''t1''"
             and fetch = "respond 401 ''Unauthorized'' JNull"]
        getCurrentUser_never_fails
          [where svc = auth0 and w = "signed_in ''t1''"
             and fetch = "respond 200 [] (JObj [(''id'', JStr ''u1'')])"]
  by (simp add: getCurrentUser_def AuthService_makeRequest_def Let_def respond_def mock_def
                last_answer_def last_request_def signed_in_def clearToken_def getToken_def)

text \<open>
  C10. When the request of \<open>logout\<close> succeeds (the executor returns: an ok response with
  a JSON body), \<open>logout\<close> returns and leaves the token manager as it was; the token is
  cleared exactly when the request fails, in the \<open>catch\<close> branch.
\<close>

theorem logout_clears_only_on_failure:
  fixes fetch :: "'m Fetch" and svc w
  defines "res \<equiv> logout svc fetch w"
  defines "succeeded \<equiv> (\<exists>r v. last_answer fetch (snd res) = Some (Resolved r) \<and> ok r
                              \<and> json_body r = Inr v)"
  shows "(succeeded \<longrightarrow> fst res = Inr () \<and> tokenManager (snd res) = tokenManager w)
       \<and> (\<not> succeeded \<longrightarrow> fst res = Inr ()
                             \<and> tokenManager (snd res) = clearToken (tokenManager w))"
proof -
  let ?opts = "\<lparr>method = Some ''POST'', body = None, headers = [], credentials = None\<rparr>"
  obtain x w' where M: "AuthService_makeRequest svc fetch ''/auth/logout'' ?opts w = (x, w')"
    by (cases "AuthService_makeRequest svc fetch ''/auth/logout'' ?opts w")
  from AuthService_makeRequest_cases [of svc fetch "''/auth/logout''" ?opts w] M
  show ?thesis
    unfolding res_def succeeded_def logout_def Let_def
    by (cases x) (auto simp add: last_answer_tokenManager)
qed

theorem logout_clears_only_on_failure_witness:
  "tokenManager (snd (logout auth0 (respond 200 [] (JObj [(''message'', JStr ''Logged out'')]))
                        (signed_in ''t1''))) = tokenManager (signed_in ''t1'')
   \<and> tokenManager (snd (logout auth0 (respond 500 ''Internal Server Error'' JNull)
                        (signed_in ''t1''))) = clearToken (tokenManager (signed_in ''t1''))"
  using logout_clears_only_on_failure
          [where svc = auth0 and w = "signed_in ''t1''"
             and fetch = "respond 200 [] (JObj [(''message'', JStr ''Logged out'')])"]
        logout_clears_only_on_failure
          [where svc = auth0 and w = "signed_in ''t1''"
             and fetch = "respond 500 ''Internal Server Error'' JNull"]
  by (simp add: logout_def AuthService_makeRequest_def Let_def respond_def mock_def
                last_answer_def last_request_def signed_in_def clearToken_def)

text \<open>
  C1. The claim asks for an absent credential after every \<open>logout\<close>. The code clears the
  token only in the \<open>catch\<close> branch, so after a logout whose request succeeded the
  credential is still stored: here \<open>"s3cr3t"\<close> survives a logout answered with 200.
\<close>

theorem logout_success_credential_survives:
  "fst (logout auth0 (respond 200 [] (JObj [(''message'', JStr ''Logged out successfully'')]))
          (signed_in ''s3cr3t'')) = Inr ()
   \<and> getToken (tokenManager (snd (logout auth0
          (respond 200 [] (JObj [(''message'', JStr ''Logged out successfully'')]))
          (signed_in ''s3cr3t'')))) = Some ''s3cr3t''"
  by (simp add: logout_def AuthService_makeRequest_def Let_def respond_def mock_def
                signed_in_def getToken_def auth0_def)

section \<open>Properties of ApiChatService\<close>


lemma ChatService_makeRequest_request:
  "last_request (snd (ChatService_makeRequest svc fetch endpoint options w)) =
     Some (baseUrl svc @ endpoint,
           options\<lparr>headers :=
                     (case getToken (tokenManager w) of
                        None \<Rightarrow> spread [(''Content-Type'', ''application/json'')] (headers options)
                      | Some t \<Rightarrow>
                          if t \<noteq> [] then
                            AList.update ''Authorization'' (''Bearer '' @ t)
                              (spread [(''Content-Type'', ''application/json'')] (headers options))
                          else spread [(''Content-Type'', ''application/json'')] (headers options)),
                   credentials := Some ''include''\<rparr>)"
  by (simp add: ChatService_makeRequest_def Let_def last_request_def
           split: FetchResult.split sum.split option.split)

lemma ChatService_makeRequest_fetched:
  "fetched (snd (ChatService_makeRequest svc fetch endpoint options w)) \<noteq> fetched w"
  by (simp add: ChatService_makeRequest_def Let_def
           split: FetchResult.split sum.split option.split)

text \<open>
  Every method other than the three stubs is one call of the request executor, with no
  headers of its own.
\<close>

lemma ChatService_call_rule:
  assumes "m \<notin> {M_updateConversation, M_deleteConversation, M_markMessageAsRead}"
      and "\<And>endpoint options. headers options = [] \<Longrightarrow>
             P (ChatService_makeRequest svc fetch endpoint options w)"
  shows "P (ChatService_call svc stringify fetch m ident request w)"
  using assms
  by (cases m)
     (simp_all add: getConversations_def getConversation_def createConversation_def
        getMessages_def sendMessage_def getExpertQueue_def claimConversation_def
        unclaimConversation_def getExpertProfile_def updateExpertProfile_def
        getExpertAssignmentHistory_def GET_def POST_def)




lemma ChatService_makeRequest_headers:
  fixes fetch :: "'a Fetch" and svc endpoint options w
  assumes "headers options = []"
  defines "sent \<equiv> map_option (headers \<circ> snd)
                    (last_request (snd (ChatService_makeRequest svc fetch endpoint options w)))"
  shows "(\<forall>c. getToken (tokenManager w) = Some c \<and> c \<noteq> [] \<longrightarrow>
            sent = Some [(''Content-Type'', ''application/json''),
                         (''Authorization'', ''Bearer '' @ c)])
       \<and> (getToken (tokenManager w) = None \<or> getToken (tokenManager w) = Some [] \<longrightarrow>
            sent = Some [(''Content-Type'', ''application/json'')])"
  unfolding sent_def using assms
  by (auto simp add: ChatService_makeRequest_request spread_def)

lemma AuthService_makeRequest_request:
  "last_request (snd (AuthService_makeRequest svc fetch endpoint options w)) =
     Some (ApiAuthService.baseUrl svc @ endpoint,
           options\<lparr>headers := spread [(''Content-Type'', ''application/json'')] (headers options),
                   credentials := Some ''include''\<rparr>)"
  by (simp add: AuthService_makeRequest_def Let_def last_request_def
           split: FetchResult.split sum.split)

lemma auth_headers:
  "map_option (headers \<circ> snd) (last_request (snd (login svc stringify fetch username password w)))
     = Some [(''Content-Type'', ''application/json'')]"
  "map_option (headers \<circ> snd) (last_request (snd (register svc stringify fetch userData w)))
     = Some [(''Content-Type'', ''application/json'')]"
  "map_option (headers \<circ> snd) (last_request (snd (refreshToken svc fetch w)))
     = Some [(''Content-Type'', ''application/json'')]"
  "map_option (headers \<circ> snd) (last_request (snd (logout svc fetch' w)))
     = Some [(''Content-Type'', ''application/json'')]"
  "map_option (headers \<circ> snd) (last_request (snd (getCurrentUser svc fetch'' w)))
     = Some [(''Content-Type'', ''application/json'')]"
  by (simp_all add: login_def register_def refreshToken_def logout_def getCurrentUser_def
        AuthService_makeRequest_def Let_def last_request_def spread_def
        split: FetchResult.split sum.split)

text \<open>
  C6, as the code has it. A request of the chat service carries the headers
  \<open>Content-Type: application/json\<close> and, when the stored credential \<open>c\<close> is a non-empty
  string, \<open>Authorization: Bearer c\<close>, once; with no credential, or with the empty string
  stored, it carries the content type alone (\<open>if (token)\<close> is false for \<open>""\<close>). The auth
  service sends the content type merged with the headers of its caller, whatever the token
  manager holds, and its five methods send the content type alone.
\<close>

theorem authorization_header:
  fixes fetch :: "'a Fetch" and afetch :: "'b Fetch" and efetch :: "'u AuthResponse Fetch"
    and svc stringify m ident request w
  assumes "m \<notin> {M_updateConversation, M_deleteConversation, M_markMessageAsRead}"
  defines "sent \<equiv> map_option (headers \<circ> snd)
                    (last_request (snd (ChatService_call svc stringify fetch m ident request w)))"
  shows "(\<forall>c. getToken (tokenManager w) = Some c \<and> c \<noteq> [] \<longrightarrow>
            sent = Some [(''Content-Type'', ''application/json''),
                         (''Authorization'', ''Bearer '' @ c)])
       \<and> (getToken (tokenManager w) = None \<or> getToken (tokenManager w) = Some [] \<longrightarrow>
            sent = Some [(''Content-Type'', ''application/json'')])
       \<and> map_option (headers \<circ> snd)
            (last_request (snd (AuthService_makeRequest asvc afetch endpoint options aw)))
          = Some (spread [(''Content-Type'', ''application/json'')] (headers options))
       \<and> map_option (headers \<circ> snd)
            (last_request (snd (login asvc stringify efetch username password aw)))
          = Some [(''Content-Type'', ''application/json'')]
       \<and> map_option (headers \<circ> snd)
            (last_request (snd (register asvc stringify efetch userData aw)))
          = Some [(''Content-Type'', ''application/json'')]
       \<and> map_option (headers \<circ> snd) (last_request (snd (refreshToken asvc efetch aw)))
          = Some [(''Content-Type'', ''application/json'')]
       \<and> map_option (headers \<circ> snd) (last_request (snd (logout asvc afetch aw)))
          = Some [(''Content-Type'', ''application/json'')]
       \<and> map_option (headers \<circ> snd) (last_request (snd (getCurrentUser asvc afetch aw)))
          = Some [(''Content-Type'', ''application/json'')]"
proof -
  have chat: "(\<forall>c. getToken (tokenManager w) = Some c \<and> c \<noteq> [] \<longrightarrow>
            sent = Some [(''Content-Type'', ''application/json''),
                         (''Authorization'', ''Bearer '' @ c)])
       \<and> (getToken (tokenManager w) = None \<or> getToken (tokenManager w) = Some [] \<longrightarrow>
            sent = Some [(''Content-Type'', ''application/json'')])"
    unfolding sent_def
    by (rule ChatService_call_rule [OF assms(1)]) (rule ChatService_makeRequest_headers)
  have auth: "map_option (headers \<circ> snd)
            (last_request (snd (AuthService_makeRequest asvc afetch endpoint options aw)))
          = Some (spread [(''Content-Type'', ''application/json'')] (headers options))"
    by (simp add: AuthService_makeRequest_request)
  from chat auth show ?thesis
    by (simp only: auth_headers simp_thms)
qed

theorem authorization_header_witness:
  "M_getConversations \<notin> {M_updateConversation, M_deleteConversation, M_markMessageAsRead}
   \<and> map_option (headers \<circ> snd)
        (last_request (snd (ChatService_call chat0 opaque (respond 200 [] JNull)
                              M_getConversations [] [] (signed_in ''t1''))))
     = Some [(''Content-Type'', ''application/json''), (''Authorization'', ''Bearer t1'')]
   \<and> map_option (headers \<circ> snd)
        (last_request (snd (ChatService_call chat0 opaque (respond 200 [] JNull)
                              M_getConversations [] [] signed_out)))
     = Some [(''Content-Type'', ''application/json'')]"
  using authorization_header
          [where m = M_getConversations and svc = chat0 and stringify = opaque
             and fetch = "respond 200 [] JNull" and ident = "[]" and request = "[]"
             and w = "signed_in ''t1''" and asvc = auth0 and afetch = "respond 200 [] JNull"
             and efetch = "respond 200 [] \<lparr>user = JNull, token = ''t1''\<rparr>"
             and endpoint = "[]" and options = GET and aw = signed_out
             and username = "[]" and password = "[]" and userData = "[]"]
        authorization_header
          [where m = M_getConversations and svc = chat0 and stringify = opaque
             and fetch = "respond 200 [] JNull" and ident = "[]" and request = "[]"
             and w = signed_out and asvc = auth0 and afetch = "respond 200 [] JNull"
             and efetch = "respond 200 [] \<lparr>user = JNull, token = ''t1''\<rparr>"
             and endpoint = "[]" and options = GET and aw = signed_out
             and username = "[]" and password = "[]" and userData = "[]"]
  by (simp add: signed_in_def signed_out_def getToken_def)

text \<open>
  C6, the claim as written, fails for a stored credential that is the empty string: it is
  present in the token manager, and the request carries no \<open>Authorization\<close> header.
\<close>

theorem empty_credential_counterexample:
  "getToken (tokenManager (signed_in [])) = Some []
   \<and> map_option (headers \<circ> snd)
        (last_request (snd (getConversations chat0 (respond 200 [] JNull) (signed_in []))))
     = Some [(''Content-Type'', ''application/json'')]"
  by (simp add: getConversations_def ChatService_makeRequest_def Let_def respond_def mock_def
                last_request_def signed_in_def getToken_def GET_def spread_def)

lemma placeholder_iff:
  "placeholder m \<longleftrightarrow>
     m \<in> {M_updateConversation, M_deleteConversation, M_markMessageAsRead}"
proof
  assume p: "placeholder m"
  show "m \<in> {M_updateConversation, M_deleteConversation, M_markMessageAsRead}"
  proof (rule ccontr)
    assume n: "m \<notin> {M_updateConversation, M_deleteConversation, M_markMessageAsRead}"
    have "fetched (snd (ChatService_call chat0 opaque (respond 200 [] JNull) m [] [] signed_out))
            \<noteq> fetched signed_out"
      by (rule ChatService_call_rule [OF n]) (rule ChatService_makeRequest_fetched)
    moreover from p have "snd (ChatService_call chat0 opaque (respond 200 [] JNull) m [] []
                                 signed_out) = signed_out"
      unfolding placeholder_def by auto
    ultimately show False by simp
  qed
next
  assume "m \<in> {M_updateConversation, M_deleteConversation, M_markMessageAsRead}"
  then show "placeholder m"
    unfolding placeholder_def
    by (auto simp add: updateConversation_def deleteConversation_def markMessageAsRead_def)
qed

text \<open>
  C8, as the code has it. Three methods are placeholders, not two:
  \<open>updateConversation\<close>, \<open>deleteConversation\<close> and \<open>markMessageAsRead\<close>. Each fails on
  every input with its own fixed message and leaves the world untouched, so no request is
  made; every other method of the service makes a request.
\<close>

theorem three_placeholders:
  "updateConversation ident request w
     = (Inl (Error ''updateConversation method not implemented''), w)
   \<and> deleteConversation ident w
     = (Inl (Error ''deleteConversation method not implemented''), w)
   \<and> markMessageAsRead messageId w
     = (Inl (Error ''markMessageAsRead method not implemented''), w)
   \<and> {m. placeholder m} = {M_updateConversation, M_deleteConversation, M_markMessageAsRead}
   \<and> card {m. placeholder m} = 3"
proof -
  have "{m. placeholder m} = {M_updateConversation, M_deleteConversation, M_markMessageAsRead}"
    using placeholder_iff by blast
  then show ?thesis
    by (simp add: updateConversation_def deleteConversation_def markMessageAsRead_def)
qed

text \<open>C8, the claim as written: the number of placeholder methods is not two.\<close>

theorem two_placeholders_counterexample:
  "card {m. placeholder m} \<noteq> 2"
proof -
  have "{m. placeholder m} = {M_updateConversation, M_deleteConversation, M_markMessageAsRead}"
    using placeholder_iff by blast
  then show ?thesis by simp
qed

text \<open>
  C9. The body of \<open>createConversation\<close> is the serialised object with the one property
  \<open>title\<close>, that of \<open>sendMessage\<close> has \<open>conversationId\<close> and \<open>content\<close>, that of
  \<open>updateExpertProfile\<close> has \<open>bio\<close> and \<open>knowledgeBaseLinks\<close>, each read from the
  request. Two requests that agree on these properties give the same call (the same
  outgoing request, body included, and the same result), and a further property of the
  request object changes nothing.
\<close>

theorem bodies_from_allow_listed_fields:
  fixes fetch :: "'a Fetch"
  shows "map_option (body \<circ> snd)
           (last_request (snd (createConversation svc stringify fetch r1 w)))
         = Some (Some (stringify (JObj [(''title'', field r1 ''title'')])))
       \<and> (field r1 ''title'' = field r2 ''title'' \<longrightarrow>
            createConversation svc stringify fetch r1 w
            = createConversation svc stringify fetch r2 w)
       \<and> (k \<noteq> ''title'' \<longrightarrow>
            createConversation svc stringify fetch ((k, v) # r1) w
            = createConversation svc stringify fetch r1 w)
       \<and> map_option (body \<circ> snd) (last_request (snd (sendMessage svc stringify fetch r1 w)))
         = Some (Some (stringify (JObj [(''conversationId'', field r1 ''conversationId''),
                                        (''content'', field r1 ''content'')])))
       \<and> (field r1 ''conversationId'' = field r2 ''conversationId''
            \<and> field r1 ''content'' = field r2 ''content'' \<longrightarrow>
            sendMessage svc stringify fetch r1 w = sendMessage svc stringify fetch r2 w)
       \<and> (k \<noteq> ''conversationId'' \<and> k \<noteq> ''content'' \<longrightarrow>
            sendMessage svc stringify fetch ((k, v) # r1) w
            = sendMessage svc stringify fetch r1 w)
       \<and> map_option (body \<circ> snd)
           (last_request (snd (updateExpertProfile svc stringify fetch r1 w)))
         = Some (Some (stringify (JObj [(''bio'', field r1 ''bio''),
                                        (''knowledgeBaseLinks'', field r1 ''knowledgeBaseLinks'')])))
       \<and> (field r1 ''bio'' = field r2 ''bio''
            \<and> field r1 ''knowledgeBaseLinks'' = field r2 ''knowledgeBaseLinks'' \<longrightarrow>
            updateExpertProfile svc stringify fetch r1 w
            = updateExpertProfile svc stringify fetch r2 w)
       \<and> (k \<noteq> ''bio'' \<and> k \<noteq> ''knowledgeBaseLinks'' \<longrightarrow>
            updateExpertProfile svc stringify fetch ((k, v) # r1) w
            = updateExpertProfile svc stringify fetch r1 w)"
  by (simp add: createConversation_def sendMessage_def updateExpertProfile_def
                ChatService_makeRequest_request field_def)

theorem bodies_from_allow_listed_fields_witness:
  "field [(''title'', JStr ''Help''), (''isAdmin'', JBool True)] ''title''
     = field [(''title'', JStr ''Help'')] ''title''
   \<and> createConversation chat0 opaque (respond 201 [] JNull)
        [(''title'', JStr ''Help''), (''isAdmin'', JBool True)] (signed_in ''t1'')
     = createConversation chat0 opaque (respond 201 [] JNull)
        [(''title'', JStr ''Help'')] (signed_in ''t1'')
   \<and> map_option (body \<circ> snd)
        (last_request (snd (createConversation chat0 opaque (respond 201 [] JNull)
           [(''title'', JStr ''Help''), (''isAdmin'', JBool True)] (signed_in ''t1''))))
     = Some (Some (opaque (JObj [(''title'', JStr ''Help'')])))"
  using bodies_from_allow_listed_fields
          [where svc = chat0 and stringify = opaque and fetch = "respond 201 [] JNull"
             and ?r1.0 = "[(''title'', JStr ''Help''), (''isAdmin'', JBool True)]"
             and ?r2.0 = "[(''title'', JStr ''Help'')]" and w = "signed_in ''t1''"
             and k = "''isAdmin''" and v = "JBool True"]
  by (simp add: field_def createConversation_def ChatService_makeRequest_request)

end
